theory Spec2Isabelle
  imports Complex_Main "HOL-Library.Char_ord" "HOL-Library.List_Lexorder"
    "HOL-Library.Product_Lexorder"
begin

section \<open>Tables, columns and floating-point results\<close>

text \<open>
  The program is two pandas pipelines over one table, \<^verbatim>\<open>medical_examination.csv\<close>. A
  DataFrame is kept column-wise, as pandas keeps it: an association list from the column
  label to the column's cells, in the order of the file's header. The cells of the dataset
  are numbers (integer codes and measurements, every cell present); they are modelled as
  exact reals, so the rounding of binary floating point is outside the model, and so is a
  file with an empty or a non-numeric cell. What a float computation can produce beyond a
  finite number (an infinity or NaN from a division by zero, NaN from an empty quantile or
  an undefined correlation) is kept in the type \<open>fl\<close>.
\<close>

type_synonym series = "real list"

type_synonym frame = "(string \<times> series) list"

datatype fl = Fin real | PInf | NInf | NaN

datatype error =
    FileNotFoundError string
  | ParserError string
  | KeyError "string list"
  | PlotError string

text \<open>Raising is returning \<open>Inl\<close>; a statement after a raise does not run.\<close>

definition bind :: "error + 'a \<Rightarrow> ('a \<Rightarrow> error + 'b) \<Rightarrow> error + 'b" where
  "bind r f = (case r of Inl e \<Rightarrow> Inl e | Inr x \<Rightarrow> f x)"

definition columns :: "frame \<Rightarrow> string list" where
  "columns df = map fst df"

definition nrows :: "frame \<Rightarrow> nat" where
  "nrows df = (case df of [] \<Rightarrow> 0 | (c, xs) # rest \<Rightarrow> length xs)"

text \<open>
  What \<^verbatim>\<open>read_csv\<close> guarantees of the table it returns: the labels are distinct (a
  repeated header is renamed) and every column has one cell per row.
\<close>

definition wf_frame :: "frame \<Rightarrow> bool" where
  "wf_frame df = (distinct (map fst df) \<and> list_all (\<lambda>cx. length (snd cx) = nrows df) df)"

text \<open>\<^verbatim>\<open>df[name]\<close>: the column, or \<^verbatim>\<open>KeyError\<close>.\<close>

definition getcol :: "frame \<Rightarrow> string \<Rightarrow> error + series" where
  "getcol df name = (case map_of df name of None \<Rightarrow> Inl (KeyError [name]) | Some xs \<Rightarrow> Inr xs)"

text \<open>
  \<^verbatim>\<open>df[name] = xs\<close>: an existing column is replaced where it stands, a new one is
  appended as the last column.
\<close>

fun setcol :: "frame \<Rightarrow> string \<Rightarrow> series \<Rightarrow> frame" where
  "setcol [] name xs = [(name, xs)]"
| "setcol ((c, ys) # rest) name xs =
     (if c = name then (c, xs) # rest else (c, ys) # setcol rest name xs)"

subsection \<open>Series arithmetic and comparisons\<close>

definition div_scalar :: "series \<Rightarrow> real \<Rightarrow> series" where
  "div_scalar xs c = map (\<lambda>x. x / c) xs"

definition pow_scalar :: "series \<Rightarrow> nat \<Rightarrow> series" where
  "pow_scalar xs n = map (\<lambda>x. x ^ n) xs"

text \<open>
  Float division as numpy does it under pandas: no exception on a zero divisor, the
  quotient is an infinity with the sign of the dividend, or NaN for \<open>0 / 0\<close>. The model
  has one zero; the only divisor in the program is a square, whose zero is the positive one.
\<close>

definition fdiv :: "real \<Rightarrow> real \<Rightarrow> fl" where
  "fdiv a b =
     (if b = 0 then (if 0 < a then PInf else if a < 0 then NInf else NaN)
      else Fin (a / b))"

definition truediv :: "series \<Rightarrow> series \<Rightarrow> fl list" where
  "truediv xs ys = map2 fdiv xs ys"

text \<open>Comparisons with NaN are false.\<close>

fun fl_gt :: "fl \<Rightarrow> real \<Rightarrow> bool" where
  "fl_gt (Fin a) c = (c < a)"
| "fl_gt PInf c = True"
| "fl_gt NInf c = False"
| "fl_gt NaN c = False"

fun ge_fl :: "real \<Rightarrow> fl \<Rightarrow> bool" where
  "ge_fl x (Fin q) = (q \<le> x)"
| "ge_fl x PInf = False"
| "ge_fl x NInf = True"
| "ge_fl x NaN = False"

fun le_fl :: "real \<Rightarrow> fl \<Rightarrow> bool" where
  "le_fl x (Fin q) = (x \<le> q)"
| "le_fl x PInf = True"
| "le_fl x NInf = False"
| "le_fl x NaN = False"

definition fgt_scalar :: "fl list \<Rightarrow> real \<Rightarrow> bool list" where
  "fgt_scalar vs c = map (\<lambda>v. fl_gt v c) vs"

definition gt_scalar :: "series \<Rightarrow> real \<Rightarrow> bool list" where
  "gt_scalar xs c = map (\<lambda>x. c < x) xs"

definition le_series :: "series \<Rightarrow> series \<Rightarrow> bool list" where
  "le_series xs ys = map2 (\<lambda>x y. x \<le> y) xs ys"

definition ge_scalar :: "series \<Rightarrow> fl \<Rightarrow> bool list" where
  "ge_scalar xs q = map (\<lambda>x. ge_fl x q) xs"

definition le_scalar :: "series \<Rightarrow> fl \<Rightarrow> bool list" where
  "le_scalar xs q = map (\<lambda>x. le_fl x q) xs"

definition and_series :: "bool list \<Rightarrow> bool list \<Rightarrow> bool list" where
  "and_series bs cs = map2 (\<lambda>b c. b \<and> c) bs cs"

definition astype_int :: "bool list \<Rightarrow> series" where
  "astype_int bs = map (\<lambda>b. if b then 1 else 0) bs"

section \<open>Column derivation\<close>

text \<open>
  \<^verbatim>\<open>draw_cat_plot\<close>, the statements that add \<^verbatim>\<open>overweight\<close> and binarise
  \<^verbatim>\<open>cholesterol\<close> and \<^verbatim>\<open>gluc\<close>.
\<close>

definition cat_derive :: "frame \<Rightarrow> error + frame" where
  "cat_derive df =
     bind (getcol df ''weight'') (\<lambda>weight.
     bind (getcol df ''height'') (\<lambda>height.
       let bmi = truediv weight (pow_scalar (div_scalar height 100) 2);
           df1 = setcol df ''overweight'' (astype_int (fgt_scalar bmi 25))
       in
     bind (getcol df1 ''cholesterol'') (\<lambda>cholesterol.
       let df2 = setcol df1 ''cholesterol'' (astype_int (gt_scalar cholesterol 1)) in
     bind (getcol df2 ''gluc'') (\<lambda>gluc.
       Inr (setcol df2 ''gluc'' (astype_int (gt_scalar gluc 1)))))))"

text \<open>\<^verbatim>\<open>draw_heat_map\<close>, the same three assignments as written there.\<close>

definition heat_derive :: "frame \<Rightarrow> error + frame" where
  "heat_derive df =
     bind (getcol df ''weight'') (\<lambda>weight.
     bind (getcol df ''height'') (\<lambda>height.
       let df1 = setcol df ''overweight''
             (astype_int (fgt_scalar (truediv weight (pow_scalar (div_scalar height 100) 2)) 25))
       in
     bind (getcol df1 ''cholesterol'') (\<lambda>cholesterol.
       let df2 = setcol df1 ''cholesterol'' (astype_int (gt_scalar cholesterol 1)) in
     bind (getcol df2 ''gluc'') (\<lambda>gluc.
       Inr (setcol df2 ''gluc'' (astype_int (gt_scalar gluc 1)))))))"

section \<open>Categorical plot: reshape and count\<close>

text \<open>
  A row of the long table that \<^verbatim>\<open>pd.melt\<close> returns, as the triple of its columns
  \<^verbatim>\<open>(cardio, variable, value)\<close>; a row of the count table carries \<^verbatim>\<open>total\<close> as well.
\<close>

type_synonym long_row = "real \<times> string \<times> real"

type_synonym count_row = "long_row \<times> nat"



fun melt_vars :: "frame \<Rightarrow> series \<Rightarrow> string list \<Rightarrow> error + long_row list" where
  "melt_vars df ids [] = Inr []"
| "melt_vars df ids (v # vs) =
     bind (getcol df v) (\<lambda>xs.
     bind (melt_vars df ids vs) (\<lambda>rest.
       Inr (map2 (\<lambda>c x. (c, v, x)) ids xs @ rest)))"

text \<open>
  \<^verbatim>\<open>pd.melt(df, id_vars=[id_var], value_vars=value_vars)\<close>: a label that is not a
  column raises \<^verbatim>\<open>KeyError\<close> with the missing labels; otherwise one block of rows per
  value column, in the order of \<open>value_vars\<close>, each block in row order.
\<close>

definition melt :: "frame \<Rightarrow> string \<Rightarrow> string list \<Rightarrow> error + long_row list" where
  "melt df id_var value_vars =
     (let missing = filter (\<lambda>c. c \<notin> set (columns df)) (id_var # value_vars) in
      if missing \<noteq> [] then Inl (KeyError missing)
      else bind (getcol df id_var) (\<lambda>ids. melt_vars df ids value_vars))"

text \<open>
  \<^verbatim>\<open>groupby(['cardio', 'variable', 'value'])['value'].count().reset_index(name='total')\<close>:
  one row per key that occurs, keys in ascending order, with the number of rows of the
  group.
\<close>

definition groupby_count :: "long_row list \<Rightarrow> count_row list" where
  "groupby_count rs = map (\<lambda>k. (k, count_list rs k)) (sort (remdups rs))"

definition value_vars :: "string list" where
  "value_vars = [''cholesterol'', ''gluc'', ''smoke'', ''alco'', ''active'', ''overweight'']"

section \<open>Heat map: filter, correlation, mask\<close>

text \<open>
  \<^verbatim>\<open>Series.quantile(q)\<close> with the default linear interpolation between the two
  neighbouring order statistics; NaN for an empty column.
\<close>

definition quantile :: "series \<Rightarrow> real \<Rightarrow> fl" where
  "quantile xs q =
     (if xs = [] then NaN
      else
        let s = sort xs;
            pos = q * real (length xs - 1);
            lo = nat \<lfloor>pos\<rfloor>;
            hi = min (lo + 1) (length xs - 1);
            frac = pos - real lo
        in Fin (s ! lo + (s ! hi - s ! lo) * frac))"

text \<open>\<^verbatim>\<open>df[mask]\<close>: the rows where the boolean series is true, in every column.\<close>

definition select :: "bool list \<Rightarrow> 'a list \<Rightarrow> 'a list" where
  "select keep xs = map snd (filter fst (zip keep xs))"

definition loc_mask :: "frame \<Rightarrow> bool list \<Rightarrow> frame" where
  "loc_mask df keep = map (\<lambda>cx. (fst cx, select keep (snd cx))) df"

text \<open>
  The boolean indexing of \<^verbatim>\<open>draw_heat_map\<close>. The columns are read in the order in
  which the source first reads them; it reads \<^verbatim>\<open>height\<close> and \<^verbatim>\<open>weight\<close> again for
  each bound and gets the same columns.
\<close>

definition heat_filter :: "frame \<Rightarrow> error + frame" where
  "heat_filter df =
     bind (getcol df ''ap_lo'') (\<lambda>ap_lo.
     bind (getcol df ''ap_hi'') (\<lambda>ap_hi.
     bind (getcol df ''height'') (\<lambda>height.
     bind (getcol df ''weight'') (\<lambda>weight.
       Inr (loc_mask df
         (and_series (and_series (and_series (and_series
            (le_series ap_lo ap_hi)
            (ge_scalar height (quantile height (25 / 1000))))
            (le_scalar height (quantile height (975 / 1000))))
            (ge_scalar weight (quantile weight (25 / 1000))))
            (le_scalar weight (quantile weight (975 / 1000)))))))))"

text \<open>
  \<^verbatim>\<open>DataFrame.corr()\<close>, Pearson: the sum of the products of the deviations of the two
  columns over the root of the product of their sums of squared deviations, NaN when that
  divisor is zero (a constant column, a single row) or when there is no row. pandas
  accumulates the same three sums in one pass over the rows; over exact numbers the result
  is the same.
\<close>

definition mean :: "series \<Rightarrow> real" where
  "mean xs = sum_list xs / real (length xs)"

definition pearson :: "series \<Rightarrow> series \<Rightarrow> fl" where
  "pearson xs ys =
     (if length xs < 1 then NaN
      else
        let mx = mean xs;
            my = mean ys;
            covxy = sum_list (map2 (\<lambda>x y. (x - mx) * (y - my)) xs ys);
            ssx = sum_list (map (\<lambda>x. (x - mx) ^ 2) xs);
            ssy = sum_list (map (\<lambda>y. (y - my) ^ 2) ys);
            divisor = sqrt (ssx * ssy)
        in if divisor \<noteq> 0 then Fin (covxy / divisor) else NaN)"

type_synonym matrix = "fl list list"

record corr_frame =
  labels :: "string list"
  cells :: matrix

definition corr :: "frame \<Rightarrow> corr_frame" where
  "corr df =
     \<lparr>labels = columns df,
      cells = map (\<lambda>cx. map (\<lambda>cy. pearson (snd cx) (snd cy)) df) df\<rparr>"

text \<open>
  \<^verbatim>\<open>np.triu(m)\<close>: a copy of the matrix with the cells below the diagonal set to zero;
  the cells on and above the diagonal keep their values.
\<close>

definition triu :: "matrix \<Rightarrow> matrix" where
  "triu m =
     map (\<lambda>i. map (\<lambda>j. if i \<le> j then m ! i ! j else Fin 0) [0..<length (m ! i)])
       [0..<length m]"

text \<open>
  How an array is read as a boolean mask (numpy's conversion to \<^verbatim>\<open>bool\<close>, which
  seaborn applies to the \<^verbatim>\<open>mask\<close> argument): zero is false, everything else, NaN
  included, is true.
\<close>

fun truthy :: "fl \<Rightarrow> bool" where
  "truthy (Fin a) = (a \<noteq> 0)"
| "truthy PInf = True"
| "truthy NInf = True"
| "truthy NaN = True"

section \<open>The two pipelines\<close>

text \<open>
  The disk maps a path to what the file holds: a table (a file that parses as CSV) or a
  saved figure. The plotting library is a parameter: \<^verbatim>\<open>sns.catplot\<close> and
  \<^verbatim>\<open>sns.heatmap\<close> receive the arguments of the call and return the figure or raise.
\<close>

datatype 'fig content = Csv frame | Png 'fig

type_synonym 'fig disk = "string \<Rightarrow> 'fig content option"

record cat_args =
  cat_data :: "count_row list"
  cat_x :: string
  cat_y :: string
  cat_hue :: string
  cat_col :: string
  cat_kind :: string
  cat_height :: real
  cat_aspect :: real

record heat_args =
  heat_figsize :: "real \<times> real"
  heat_data :: corr_frame
  heat_mask :: matrix
  heat_annot :: bool
  heat_fmt :: string
  heat_linewidths :: real
  heat_cbar_shrink :: real
  heat_center :: real
  heat_vmax :: real
  heat_square :: bool
  heat_cbar :: bool




definition read_csv :: "'fig disk \<Rightarrow> string \<Rightarrow> error + frame" where
  "read_csv disk path =
     (case disk path of
        None \<Rightarrow> Inl (FileNotFoundError path)
      | Some (Csv df) \<Rightarrow> Inr df
      | Some (Png fig) \<Rightarrow> Inl (ParserError path))"


definition dataset_path :: string where
  "dataset_path = ''medical_examination.csv''"

text \<open>\<^verbatim>\<open>draw_cat_plot\<close> up to and including the derived columns.\<close>

definition cat_table :: "'fig disk \<Rightarrow> error + frame" where
  "cat_table disk = bind (read_csv disk dataset_path) cat_derive"

text \<open>\<dots> up to and including the count table \<^verbatim>\<open>df_cat\<close>.\<close>

definition cat_counts :: "'fig disk \<Rightarrow> error + count_row list" where
  "cat_counts disk =
     bind (cat_table disk) (\<lambda>df.
     bind (melt df ''cardio'' value_vars) (\<lambda>df_cat.
       Inr (groupby_count df_cat)))"



text \<open>\<^verbatim>\<open>draw_heat_map\<close> up to and including the derived columns.\<close>

definition heat_table :: "'fig disk \<Rightarrow> error + frame" where
  "heat_table disk = bind (read_csv disk dataset_path) heat_derive"

text \<open>\<dots> up to \<^verbatim>\<open>df_heat\<close>, the rows that pass the filter.\<close>

definition heat_clean :: "'fig disk \<Rightarrow> error + frame" where
  "heat_clean disk = bind (heat_table disk) heat_filter"

text \<open>\<dots> up to the correlation matrix and the mask made from it.\<close>

definition heat_corr :: "'fig disk \<Rightarrow> error + corr_frame" where
  "heat_corr disk = bind (heat_clean disk) (\<lambda>df_heat. Inr (corr df_heat))"

definition heat_mask_of :: "'fig disk \<Rightarrow> error + matrix" where
  "heat_mask_of disk = bind (heat_corr disk) (\<lambda>c. Inr (triu (cells c)))"



section \<open>A small dataset\<close>

text \<open>
  Six examinations with the columns of the dataset. The first has its diastolic pressure
  above the systolic one, the last is the tallest; the four between them pass the filter of
  the heat map.
\<close>

definition exam :: frame where
  "exam =
     [(''id'', [0, 1, 2, 3, 4, 5]),
      (''age'', [19000, 18251, 18249, 18250, 18250, 21000]),
      (''sex'', [1, 2, 1, 2, 1, 2]),
      (''height'', [170, 165, 165, 170, 170, 190]),
      (''weight'', [70, 60, 60, 80, 80, 80]),
      (''ap_hi'', [80, 120, 120, 121, 119, 140]),
      (''ap_lo'', [120, 80, 80, 80, 80, 90]),
      (''cholesterol'', [1, 1, 3, 2, 1, 1]),
      (''gluc'', [1, 2, 1, 1, 3, 1]),
      (''smoke'', [1, 0, 1, 0, 0, 0]),
      (''alco'', [1, 0, 0, 0, 0, 0]),
      (''active'', [1, 1, 0, 1, 1, 0]),
      (''cardio'', [0, 0, 1, 1, 1, 1])]"

text \<open>The table after the derivation of \<^verbatim>\<open>overweight\<close> and the two binarisations.\<close>

definition exam_derived :: frame where
  "exam_derived =
     [(''id'', [0, 1, 2, 3, 4, 5]),
      (''age'', [19000, 18251, 18249, 18250, 18250, 21000]),
      (''sex'', [1, 2, 1, 2, 1, 2]),
      (''height'', [170, 165, 165, 170, 170, 190]),
      (''weight'', [70, 60, 60, 80, 80, 80]),
      (''ap_hi'', [80, 120, 120, 121, 119, 140]),
      (''ap_lo'', [120, 80, 80, 80, 80, 90]),
      (''cholesterol'', [0, 0, 1, 1, 0, 0]),
      (''gluc'', [0, 1, 0, 0, 1, 0]),
      (''smoke'', [1, 0, 1, 0, 0, 0]),
      (''alco'', [1, 0, 0, 0, 0, 0]),
      (''active'', [1, 1, 0, 1, 1, 0]),
      (''cardio'', [0, 0, 1, 1, 1, 1]),
      (''overweight'', [0, 0, 0, 1, 1, 0])]"

text \<open>The rows of it that the heat map keeps.\<close>

definition exam_kept :: frame where
  "exam_kept =
     [(''id'', [1, 2, 3, 4]),
      (''age'', [18251, 18249, 18250, 18250]),
      (''sex'', [2, 1, 2, 1]),
      (''height'', [165, 165, 170, 170]),
      (''weight'', [60, 60, 80, 80]),
      (''ap_hi'', [120, 120, 121, 119]),
      (''ap_lo'', [80, 80, 80, 80]),
      (''cholesterol'', [0, 1, 1, 0]),
      (''gluc'', [1, 0, 0, 1]),
      (''smoke'', [0, 1, 0, 0]),
      (''alco'', [0, 0, 0, 0]),
      (''active'', [1, 0, 1, 1]),
      (''cardio'', [0, 1, 1, 1]),
      (''overweight'', [0, 0, 1, 1])]"

text \<open>The count table of the categorical plot for it.\<close>

definition exam_counts :: "count_row list" where
  "exam_counts =
     [((0, ''active'', 1), 2), ((0, ''alco'', 0), 1), ((0, ''alco'', 1), 1),
      ((0, ''cholesterol'', 0), 2), ((0, ''gluc'', 0), 1), ((0, ''gluc'', 1), 1),
      ((0, ''overweight'', 0), 2), ((0, ''smoke'', 0), 1), ((0, ''smoke'', 1), 1),
      ((1, ''active'', 0), 2), ((1, ''active'', 1), 2), ((1, ''alco'', 0), 4),
      ((1, ''cholesterol'', 0), 2), ((1, ''cholesterol'', 1), 2), ((1, ''gluc'', 0), 3),
      ((1, ''gluc'', 1), 1), ((1, ''overweight'', 0), 2), ((1, ''overweight'', 1), 2),
      ((1, ''smoke'', 0), 3), ((1, ''smoke'', 1), 1)]"

text \<open>
  Two plotting libraries to run the pipelines with: one whose figure is the record of the
  call that drew it, and one whose calls raise.
\<close>

datatype figure = CatFigure cat_args | HeatFigure heat_args



text \<open>
  The disk that holds the small dataset and nothing else, and the same disk with an image
  left by an earlier run.
\<close>

definition exam_disk :: "figure disk" where
  "exam_disk = [dataset_path \<mapsto> Csv exam]"




section \<open>Basic facts\<close>

subsection \<open>Raising and sequencing\<close>

lemma bind_Inr_iff: "bind r f = Inr y \<longleftrightarrow> (\<exists>x. r = Inr x \<and> f x = Inr y)"
  by (cases r) (simp_all add: bind_def)


lemma bind_Inr [simp]: "bind (Inr x) f = f x"
  by (simp add: bind_def)

lemma bind_Inl [simp]: "bind (Inl e) f = Inl e"
  by (simp add: bind_def)

subsection \<open>Columns of a frame\<close>

lemma map_of_setcol: "map_of (setcol df n xs) = (map_of df)(n \<mapsto> xs)"
  by (induction df n xs rule: setcol.induct) auto

lemma getcol_setcol_same: "getcol (setcol df n xs) n = Inr xs"
  by (simp add: getcol_def map_of_setcol)

lemma getcol_setcol_other: "m \<noteq> n \<Longrightarrow> getcol (setcol df n xs) m = getcol df m"
  by (simp add: getcol_def map_of_setcol)

lemma getcol_Inr_iff: "getcol df n = Inr xs \<longleftrightarrow> map_of df n = Some xs"
  by (simp add: getcol_def split: option.splits)

lemma getcol_length:
  assumes "wf_frame df" and "getcol df n = Inr xs"
  shows "length xs = nrows df"
proof -
  from assms(2) have "(n, xs) \<in> set df"
    by (auto simp: getcol_Inr_iff dest: map_of_SomeD)
  with assms(1) show ?thesis
    by (auto simp: wf_frame_def list_all_iff)
qed

lemma getcol_nonempty: "getcol df n = Inr xs \<Longrightarrow> df \<noteq> []"
  by (auto simp: getcol_def)

lemma fst_set_setcol: "fst ` set (setcol df n xs) = insert n (fst ` set df)"
  by (induction df n xs rule: setcol.induct) auto

lemma distinct_setcol: "distinct (map fst df) \<Longrightarrow> distinct (map fst (setcol df n xs))"
proof (induction df n xs rule: setcol.induct)
  case (1 name xs)
  then show ?case by simp
next
  case (2 c ys rest name xs)
  then show ?case
    using fst_set_setcol [of rest name xs] by auto
qed

lemma nrows_setcol:
  "df \<noteq> [] \<Longrightarrow> length xs = nrows df \<Longrightarrow> nrows (setcol df n xs) = nrows df"
  by (cases df) (auto simp: nrows_def)

lemma set_setcol: "set (setcol df n xs) \<subseteq> insert (n, xs) (set df)"
  by (induction df n xs rule: setcol.induct) auto

lemma wf_setcol:
  assumes "wf_frame df" and "df \<noteq> []" and "length xs = nrows df"
  shows "wf_frame (setcol df n xs)"
proof -
  have "\<forall>cx\<in>set (setcol df n xs). length (snd cx) = nrows df"
    using set_setcol [of df n xs] assms(1,3) by (auto simp: wf_frame_def list_all_iff)
  then show ?thesis
    using assms by (simp add: wf_frame_def list_all_iff distinct_setcol nrows_setcol)
qed

lemma setcol_nonempty: "setcol df n xs \<noteq> []"
  by (cases df) (auto split: if_splits)

subsection \<open>The derived columns\<close>

lemma derive_same: "heat_derive df = cat_derive df"
  by (simp add: cat_derive_def heat_derive_def Let_def)

lemma cat_derive_Inr:
  "cat_derive df = Inr d \<longleftrightarrow>
     (\<exists>weight height cholesterol gluc.
        getcol df ''weight'' = Inr weight \<and> getcol df ''height'' = Inr height \<and>
        getcol df ''cholesterol'' = Inr cholesterol \<and> getcol df ''gluc'' = Inr gluc \<and>
        d = setcol (setcol (setcol df ''overweight''
              (astype_int (fgt_scalar (truediv weight (pow_scalar (div_scalar height 100) 2)) 25)))
              ''cholesterol'' (astype_int (gt_scalar cholesterol 1)))
              ''gluc'' (astype_int (gt_scalar gluc 1)))"
  by (auto simp: cat_derive_def bind_Inr_iff Let_def getcol_setcol_other)


lemma overweight_length:
  "length weight = length height \<Longrightarrow>
   length (astype_int (fgt_scalar (truediv weight (pow_scalar (div_scalar height 100) 2)) 25)) = length height"
  by (simp add: astype_int_def fgt_scalar_def truediv_def pow_scalar_def div_scalar_def)

lemma binarise_nth:
  "i < length xs \<Longrightarrow> astype_int (gt_scalar xs 1) ! i = (if 1 < xs ! i then 1 else 0)"
  by (simp add: astype_int_def gt_scalar_def)

lemma binarise_length: "length (astype_int (gt_scalar xs c)) = length xs"
  by (simp add: astype_int_def gt_scalar_def)

lemma cat_derive_wf:
  assumes "wf_frame df" and "cat_derive df = Inr d"
  shows "wf_frame d \<and> nrows d = nrows df \<and> d \<noteq> []"
proof -
  from assms(2) obtain weight height cholesterol gluc where
    w: "getcol df ''weight'' = Inr weight" and h: "getcol df ''height'' = Inr height" and
    c: "getcol df ''cholesterol'' = Inr cholesterol" and g: "getcol df ''gluc'' = Inr gluc" and
    d: "d = setcol (setcol (setcol df ''overweight''
              (astype_int (fgt_scalar (truediv weight (pow_scalar (div_scalar height 100) 2)) 25)))
              ''cholesterol'' (astype_int (gt_scalar cholesterol 1)))
              ''gluc'' (astype_int (gt_scalar gluc 1))"
    unfolding cat_derive_Inr by blast
  let ?ow = "astype_int (fgt_scalar (truediv weight (pow_scalar (div_scalar height 100) 2)) 25)"
  let ?d1 = "setcol df ''overweight'' ?ow"
  let ?d2 = "setcol ?d1 ''cholesterol'' (astype_int (gt_scalar cholesterol 1))"
  have ne: "df \<noteq> []" using w by (rule getcol_nonempty)
  have lens: "length weight = nrows df" "length height = nrows df"
    "length cholesterol = nrows df" "length gluc = nrows df"
    using assms(1) w h c g by (simp_all add: getcol_length)
  have low: "length ?ow = nrows df" using lens by (simp add: overweight_length)
  have 1: "wf_frame ?d1" "nrows ?d1 = nrows df"
    using assms(1) ne low by (simp_all add: wf_setcol nrows_setcol)
  have 2: "wf_frame ?d2" "nrows ?d2 = nrows df"
    using 1 lens by (simp_all add: wf_setcol nrows_setcol setcol_nonempty binarise_length)
  show ?thesis
    unfolding d using 2 lens
    by (simp add: wf_setcol nrows_setcol setcol_nonempty binarise_length)
qed

subsection \<open>Boolean indexing\<close>

lemma zip_conv_nth:
  "length xs = length ys \<Longrightarrow> zip xs ys = map (\<lambda>k. (xs ! k, ys ! k)) [0..<length xs]"
  by (rule nth_equalityI) simp_all

lemma select_conv:
  assumes "length xs = length keep"
  shows "select keep xs = map (nth xs) (filter (nth keep) [0..<length keep])"
proof -
  have "zip keep xs = map (\<lambda>k. (keep ! k, xs ! k)) [0..<length keep]"
    using assms by (simp add: zip_conv_nth)
  then show ?thesis
    by (simp add: select_def filter_map o_def)
qed

lemma map_of_loc_mask: "map_of (loc_mask df keep) n = map_option (select keep) (map_of df n)"
  unfolding loc_mask_def by (induction df) auto

lemma getcol_loc_mask:
  "getcol (loc_mask df keep) n = Inr ys \<longleftrightarrow> (\<exists>xs. getcol df n = Inr xs \<and> ys = select keep xs)"
  by (auto simp: getcol_Inr_iff map_of_loc_mask)

lemma nrows_loc_mask:
  assumes "wf_frame df" and "length keep = nrows df"
  shows "nrows (loc_mask df keep) = length (filter (nth keep) [0..<length keep])"
proof (cases df)
  case Nil
  with assms(2) show ?thesis by (simp add: loc_mask_def nrows_def)
next
  case (Cons cx rest)
  obtain c xs where cx: "cx = (c, xs)" by (cases cx)
  with Cons assms have "length xs = length keep"
    by (simp add: wf_frame_def nrows_def)
  then show ?thesis
    using Cons cx by (simp add: loc_mask_def nrows_def select_conv)
qed


lemma quantile_Fin: "xs \<noteq> [] \<Longrightarrow> \<exists>v. quantile xs q = Fin v"
  by (simp add: quantile_def Let_def)

subsection \<open>The filter of the heat map\<close>

lemma heat_filter_Inr:
  "heat_filter df = Inr df_heat \<longleftrightarrow>
     (\<exists>ap_lo ap_hi height weight.
        getcol df ''ap_lo'' = Inr ap_lo \<and> getcol df ''ap_hi'' = Inr ap_hi \<and>
        getcol df ''height'' = Inr height \<and> getcol df ''weight'' = Inr weight \<and>
        df_heat = loc_mask df
         (and_series (and_series (and_series (and_series
            (le_series ap_lo ap_hi)
            (ge_scalar height (quantile height (25 / 1000))))
            (le_scalar height (quantile height (975 / 1000))))
            (ge_scalar weight (quantile weight (25 / 1000))))
            (le_scalar weight (quantile weight (975 / 1000)))))"
  by (auto simp: heat_filter_def bind_Inr_iff)

lemma heat_mask_nth:
  assumes "length ap_lo = n" "length ap_hi = n" "length height = n" "length weight = n" "k < n"
  shows "(and_series (and_series (and_series (and_series
            (le_series ap_lo ap_hi)
            (ge_scalar height hlo)) (le_scalar height hhi))
            (ge_scalar weight wlo)) (le_scalar weight whi)) ! k =
         (ap_lo ! k \<le> ap_hi ! k \<and> ge_fl (height ! k) hlo \<and> le_fl (height ! k) hhi \<and>
          ge_fl (weight ! k) wlo \<and> le_fl (weight ! k) whi)"
  using assms
  by (simp add: and_series_def le_series_def ge_scalar_def le_scalar_def)

lemma heat_mask_length:
  assumes "length ap_lo = n" "length ap_hi = n" "length height = n" "length weight = n"
  shows "length (and_series (and_series (and_series (and_series
            (le_series ap_lo ap_hi)
            (ge_scalar height hlo)) (le_scalar height hhi))
            (ge_scalar weight wlo)) (le_scalar weight whi)) = n"
  using assms
  by (simp add: and_series_def le_series_def ge_scalar_def le_scalar_def)


subsection \<open>Melting and counting\<close>

lemma count_list_block:
  "count_list (map2 (\<lambda>c x. (c, v', x)) ids xs) (c, v, x) =
     (if v' = v then count_list (zip ids xs) (c, x) else 0)"
  by (induction ids xs rule: list_induct2') auto

lemma count_list_zip_conv:
  assumes "length ids = length xs"
  shows "count_list (zip ids xs) (c, x) =
     length (filter (\<lambda>i. ids ! i = c \<and> xs ! i = x) [0..<length xs])"
proof -
  have "zip ids xs = map (\<lambda>k. (ids ! k, xs ! k)) [0..<length xs]"
    using assms zip_conv_nth [of ids xs] by simp
  then show ?thesis
    by (auto simp: count_list_eq_length_filter filter_map o_def intro!: arg_cong [where f = length] filter_cong)
qed


lemma melt_vars_count:
  assumes "melt_vars df ids vs = Inr rows" and "getcol df v = Inr col"
  shows "count_list rows (c, v, x) = count_list vs v * count_list (zip ids col) (c, x)"
  using assms
proof (induction vs arbitrary: rows)
  case Nil
  then show ?case by simp
next
  case (Cons v' vs)
  from Cons.prems(1) obtain xs rest where
    xs: "getcol df v' = Inr xs" and rest: "melt_vars df ids vs = Inr rest" and
    rows: "rows = map2 (\<lambda>c x. (c, v', x)) ids xs @ rest"
    by (auto simp: bind_Inr_iff)
  have "count_list rest (c, v, x) = count_list vs v * count_list (zip ids col) (c, x)"
    using rest Cons.prems(2) by (rule Cons.IH)
  then show ?case
    using xs Cons.prems(2) by (auto simp: rows count_list_block)
qed

lemma melt_vars_member:
  assumes "melt_vars df ids vs = Inr rows" and "(c, v, x) \<in> set rows"
  shows "v \<in> set vs \<and> (\<exists>col. getcol df v = Inr col)"
  using assms
proof (induction vs arbitrary: rows)
  case Nil
  then show ?case by simp
next
  case (Cons v' vs)
  from Cons.prems(1) obtain xs rest where
    xs: "getcol df v' = Inr xs" and rest: "melt_vars df ids vs = Inr rest" and
    rows: "rows = map2 (\<lambda>c x. (c, v', x)) ids xs @ rest"
    by (auto simp: bind_Inr_iff)
  from Cons.prems(2) have "v = v' \<or> (c, v, x) \<in> set rest"
    by (auto simp: rows dest: set_zip_leftD)
  then show ?case
  proof
    assume "v = v'"
    with xs show ?thesis by auto
  next
    assume "(c, v, x) \<in> set rest"
    with rest Cons.IH show ?thesis by auto
  qed
qed


lemma melt_Inr:
  "melt df id_var vs = Inr rows \<longleftrightarrow>
     (filter (\<lambda>c. c \<notin> set (columns df)) (id_var # vs) = [] \<and>
      (\<exists>ids. getcol df id_var = Inr ids \<and> melt_vars df ids vs = Inr rows))"
  by (auto simp: melt_def Let_def bind_Inr_iff)

lemma set_groupby_count: "set (groupby_count rs) = (\<lambda>k. (k, count_list rs k)) ` set rs"
  by (simp add: groupby_count_def)




lemma cat_counts_Inr:
  "cat_counts disk = Inr df_cat \<longleftrightarrow>
     (\<exists>df rows. cat_table disk = Inr df \<and> melt df ''cardio'' value_vars = Inr rows \<and>
        df_cat = groupby_count rows)"
  by (auto simp: cat_counts_def bind_Inr_iff)


subsection \<open>Correlation and the mask\<close>

lemma corr_cell:
  "i < length df \<Longrightarrow> j < length df \<Longrightarrow>
   cells (corr df) ! i ! j = pearson (snd (df ! i)) (snd (df ! j))"
  by (simp add: corr_def)

lemma corr_shape:
  "length (cells (corr df)) = length df"
  "i < length df \<Longrightarrow> length (cells (corr df) ! i) = length df"
  by (simp_all add: corr_def)

lemma triu_nth:
  "i < length m \<Longrightarrow> j < length (m ! i) \<Longrightarrow>
   triu m ! i ! j = (if i \<le> j then m ! i ! j else Fin 0)"
  by (simp add: triu_def)

lemma mask_cell:
  assumes "i < length df" and "j < length df"
  shows "triu (cells (corr df)) ! i ! j =
     (if i \<le> j then pearson (snd (df ! i)) (snd (df ! j)) else Fin 0)"
  using assms by (simp add: triu_nth corr_shape corr_cell)







subsection \<open>Failure of a run\<close>





subsection \<open>What a run reads\<close>








subsection \<open>The small dataset, evaluated\<close>

lemma exam_wf: "wf_frame exam"
  by (simp add: wf_frame_def exam_def nrows_def)

lemma exam_derive: "cat_derive exam = Inr exam_derived"
  by code_simp

lemma exam_filter: "heat_filter exam_derived = Inr exam_kept"
  by code_simp

lemma exam_quantiles:
  "quantile [170, 165, 165, 170, 170, 190] (25 / 1000) = Fin 165"
  "quantile [170, 165, 165, 170, 170, 190] (975 / 1000) = Fin (1875 / 10)"
  "quantile [70, 60, 60, 80, 80, 80] (25 / 1000) = Fin 60"
  "quantile [70, 60, 60, 80, 80, 80] (975 / 1000) = Fin 80"
  by code_simp+

lemma exam_read: "read_csv exam_disk dataset_path = Inr exam"
  by (simp add: read_csv_def exam_disk_def)

lemma exam_cat_table: "cat_table exam_disk = Inr exam_derived"
  by (simp add: cat_table_def exam_read exam_derive)

lemma exam_melt_counts:
  "bind (melt exam_derived ''cardio'' value_vars) (\<lambda>df_cat. Inr (groupby_count df_cat)) = Inr exam_counts"
  by code_simp

lemma exam_cat_counts: "cat_counts exam_disk = Inr exam_counts"
  by (simp add: cat_counts_def exam_cat_table exam_melt_counts)

lemma exam_heat_clean: "heat_clean exam_disk = Inr exam_kept"
  using exam_derive
  by (simp add: heat_clean_def heat_table_def exam_read derive_same exam_filter)

lemma exam_heat_corr: "heat_corr exam_disk = Inr (corr exam_kept)"
  by (simp add: heat_corr_def exam_heat_clean)

lemma exam_heat_mask: "heat_mask_of exam_disk = Inr (triu (cells (corr exam_kept)))"
  by (simp add: heat_mask_of_def exam_heat_corr)

lemma exam_kept_columns:
  "length exam_kept = 14"
  "snd (exam_kept ! 1) = [18251, 18249, 18250, 18250]"
  "snd (exam_kept ! Suc 0) = [18251, 18249, 18250, 18250]"
  "snd (exam_kept ! 5) = [120, 120, 121, 119]"
  "snd (exam_kept ! 10) = [0, 0, 0, 0]"
  by (simp_all add: exam_kept_def)

lemma exam_age_ap_hi: "pearson [18251, 18249, 18250, 18250] [120, 120, 121, 119] = Fin 0"
  by (simp add: pearson_def mean_def Let_def)





section \<open>Claims\<close>



text \<open>
  C2. Every row that the filter of the heat map keeps has \<^verbatim>\<open>ap_lo\<close> at most
  \<^verbatim>\<open>ap_hi\<close>, and its height and its weight lie between the 2.5th and the 97.5th
  percentile of the column, both taken over the table before any row is removed, that is
  the derived table, whose height and weight columns are those of the loaded table.
\<close>

theorem heat_filter_retained:
  assumes "wf_frame raw" and "heat_derive raw = Inr df" and "heat_filter df = Inr df_heat"
  shows "\<exists>height weight ap_lo' ap_hi' height' weight'.
     getcol df ''height'' = Inr height \<and> getcol df ''weight'' = Inr weight \<and>
     getcol raw ''height'' = Inr height \<and> getcol raw ''weight'' = Inr weight \<and>
     getcol df_heat ''ap_lo'' = Inr ap_lo' \<and> getcol df_heat ''ap_hi'' = Inr ap_hi' \<and>
     getcol df_heat ''height'' = Inr height' \<and> getcol df_heat ''weight'' = Inr weight' \<and>
     length ap_lo' = nrows df_heat \<and> length ap_hi' = nrows df_heat \<and>
     length height' = nrows df_heat \<and> length weight' = nrows df_heat \<and>
     (\<forall>i<nrows df_heat.
        ap_lo' ! i \<le> ap_hi' ! i \<and>
        (\<exists>hlo hhi wlo whi.
           quantile height (25 / 1000) = Fin hlo \<and> quantile height (975 / 1000) = Fin hhi \<and>
           quantile weight (25 / 1000) = Fin wlo \<and> quantile weight (975 / 1000) = Fin whi \<and>
           hlo \<le> height' ! i \<and> height' ! i \<le> hhi \<and>
           wlo \<le> weight' ! i \<and> weight' ! i \<le> whi))"
proof -
  have wf: "wf_frame df" and nrows: "nrows df = nrows raw"
    using assms(1,2) cat_derive_wf [of raw df] by (simp_all add: derive_same)
  from assms(3) obtain ap_lo ap_hi height weight where
    cols: "getcol df ''ap_lo'' = Inr ap_lo" "getcol df ''ap_hi'' = Inr ap_hi"
      "getcol df ''height'' = Inr height" "getcol df ''weight'' = Inr weight" and
    k: "df_heat = loc_mask df
         (and_series (and_series (and_series (and_series
            (le_series ap_lo ap_hi)
            (ge_scalar height (quantile height (25 / 1000))))
            (le_scalar height (quantile height (975 / 1000))))
            (ge_scalar weight (quantile weight (25 / 1000))))
            (le_scalar weight (quantile weight (975 / 1000))))"
    unfolding heat_filter_Inr by blast
  define keep where "keep = and_series (and_series (and_series (and_series
            (le_series ap_lo ap_hi)
            (ge_scalar height (quantile height (25 / 1000))))
            (le_scalar height (quantile height (975 / 1000))))
            (ge_scalar weight (quantile weight (25 / 1000))))
            (le_scalar weight (quantile weight (975 / 1000)))"
  define idx where "idx = filter (nth keep) [0..<length keep]"
  have lens: "length ap_lo = nrows df" "length ap_hi = nrows df"
    "length height = nrows df" "length weight = nrows df"
    using wf cols by (simp_all add: getcol_length)
  have lk: "length keep = nrows df"
    unfolding keep_def using lens by (rule heat_mask_length)
  have k': "df_heat = loc_mask df keep"
    using k by (simp add: keep_def)
  have n': "nrows df_heat = length idx"
    unfolding k' idx_def using wf lk by (rule nrows_loc_mask)
  have sel: "select keep xs = map (nth xs) idx" if "length xs = nrows df" for xs
    using that lk by (simp add: select_conv idx_def)
  have raw_cols: "getcol raw ''height'' = Inr height" "getcol raw ''weight'' = Inr weight"
  proof -
    from assms(2) obtain w h c g where
      "getcol raw ''weight'' = Inr w" "getcol raw ''height'' = Inr h" and
      "df = setcol (setcol (setcol raw ''overweight''
              (astype_int (fgt_scalar (truediv w (pow_scalar (div_scalar h 100) 2)) 25)))
              ''cholesterol'' (astype_int (gt_scalar c 1)))
              ''gluc'' (astype_int (gt_scalar g 1))"
      unfolding derive_same cat_derive_Inr by blast
    with cols(3,4) show "getcol raw ''height'' = Inr height" "getcol raw ''weight'' = Inr weight"
      by (simp_all add: getcol_setcol_other)
  qed
  have kept_cols:
    "getcol df_heat ''ap_lo'' = Inr (map (nth ap_lo) idx)"
    "getcol df_heat ''ap_hi'' = Inr (map (nth ap_hi) idx)"
    "getcol df_heat ''height'' = Inr (map (nth height) idx)"
    "getcol df_heat ''weight'' = Inr (map (nth weight) idx)"
    unfolding k' using cols lens by (simp_all add: getcol_loc_mask sel)
  have rows: "ap_lo ! (idx ! i) \<le> ap_hi ! (idx ! i) \<and>
        (\<exists>hlo hhi wlo whi.
           quantile height (25 / 1000) = Fin hlo \<and> quantile height (975 / 1000) = Fin hhi \<and>
           quantile weight (25 / 1000) = Fin wlo \<and> quantile weight (975 / 1000) = Fin whi \<and>
           hlo \<le> height ! (idx ! i) \<and> height ! (idx ! i) \<le> hhi \<and>
           wlo \<le> weight ! (idx ! i) \<and> weight ! (idx ! i) \<le> whi)"
    if "i < length idx" for i
  proof -
    from that have "idx ! i \<in> set idx" by simp
    then have kn: "idx ! i < nrows df" and kk: "keep ! (idx ! i)"
      using lk by (simp_all add: idx_def)
    from kn lens have ne: "height \<noteq> []" "weight \<noteq> []" by auto
    obtain hlo hhi wlo whi where
      q: "quantile height (25 / 1000) = Fin hlo" "quantile height (975 / 1000) = Fin hhi"
        "quantile weight (25 / 1000) = Fin wlo" "quantile weight (975 / 1000) = Fin whi"
      using quantile_Fin [OF ne(1)] quantile_Fin [OF ne(2)] by metis
    from kk have "ap_lo ! (idx ! i) \<le> ap_hi ! (idx ! i) \<and>
        hlo \<le> height ! (idx ! i) \<and> height ! (idx ! i) \<le> hhi \<and>
        wlo \<le> weight ! (idx ! i) \<and> weight ! (idx ! i) \<le> whi"
      unfolding keep_def using heat_mask_nth [OF lens kn] q by simp
    with q show ?thesis by blast
  qed
  have "getcol df ''height'' = Inr height \<and> getcol df ''weight'' = Inr weight \<and>
     getcol raw ''height'' = Inr height \<and> getcol raw ''weight'' = Inr weight \<and>
     getcol df_heat ''ap_lo'' = Inr (map (nth ap_lo) idx) \<and>
     getcol df_heat ''ap_hi'' = Inr (map (nth ap_hi) idx) \<and>
     getcol df_heat ''height'' = Inr (map (nth height) idx) \<and>
     getcol df_heat ''weight'' = Inr (map (nth weight) idx) \<and>
     length (map (nth ap_lo) idx) = nrows df_heat \<and>
     length (map (nth ap_hi) idx) = nrows df_heat \<and>
     length (map (nth height) idx) = nrows df_heat \<and>
     length (map (nth weight) idx) = nrows df_heat \<and>
     (\<forall>i<nrows df_heat.
        map (nth ap_lo) idx ! i \<le> map (nth ap_hi) idx ! i \<and>
        (\<exists>hlo hhi wlo whi.
           quantile height (25 / 1000) = Fin hlo \<and> quantile height (975 / 1000) = Fin hhi \<and>
           quantile weight (25 / 1000) = Fin wlo \<and> quantile weight (975 / 1000) = Fin whi \<and>
           hlo \<le> map (nth height) idx ! i \<and> map (nth height) idx ! i \<le> hhi \<and>
           wlo \<le> map (nth weight) idx ! i \<and> map (nth weight) idx ! i \<le> whi))"
    using cols(3,4) raw_cols kept_cols n' rows by simp
  then show ?thesis by blast
qed

theorem heat_filter_retained_witness:
  "wf_frame exam \<and> heat_derive exam = Inr exam_derived \<and>
   heat_filter exam_derived = Inr exam_kept \<and> nrows exam_kept = 4 \<and>
   getcol exam_derived ''height'' = Inr [170, 165, 165, 170, 170, 190] \<and>
   getcol exam_derived ''weight'' = Inr [70, 60, 60, 80, 80, 80] \<and>
   quantile [170, 165, 165, 170, 170, 190] (25 / 1000) = Fin 165 \<and>
   quantile [170, 165, 165, 170, 170, 190] (975 / 1000) = Fin (1875 / 10) \<and>
   quantile [70, 60, 60, 80, 80, 80] (25 / 1000) = Fin 60 \<and>
   quantile [70, 60, 60, 80, 80, 80] (975 / 1000) = Fin 80 \<and>
   getcol exam_kept ''ap_lo'' = Inr [80, 80, 80, 80] \<and>
   getcol exam_kept ''ap_hi'' = Inr [120, 120, 121, 119] \<and>
   getcol exam_kept ''height'' = Inr [165, 165, 170, 170] \<and>
   getcol exam_kept ''weight'' = Inr [60, 60, 80, 80]"
proof -
  have d: "heat_derive exam = Inr exam_derived"
    using exam_derive by (simp add: derive_same)
  note heat_filter_retained [OF exam_wf d exam_filter]
  then show ?thesis
    using exam_wf d exam_filter exam_quantiles
    by (simp add: exam_derived_def exam_kept_def getcol_def nrows_def)
qed

text \<open>
  C3. For every row of the loaded table the binarised \<^verbatim>\<open>cholesterol\<close> is 1 when the
  original value is greater than 1 and 0 otherwise, and likewise \<^verbatim>\<open>gluc\<close>; the heat
  map derives the same table.
\<close>

theorem binarised_columns:
  assumes "wf_frame df" and "cat_derive df = Inr d"
  shows "heat_derive df = Inr d \<and>
    (\<exists>cholesterol gluc cholesterol' gluc'.
       getcol df ''cholesterol'' = Inr cholesterol \<and> getcol df ''gluc'' = Inr gluc \<and>
       getcol d ''cholesterol'' = Inr cholesterol' \<and> getcol d ''gluc'' = Inr gluc' \<and>
       length cholesterol' = nrows df \<and> length gluc' = nrows df \<and>
       (\<forall>i<nrows df.
          cholesterol' ! i = (if 1 < cholesterol ! i then 1 else 0) \<and>
          gluc' ! i = (if 1 < gluc ! i then 1 else 0)))"
proof -
  from assms(2) obtain weight height cholesterol gluc where
    c: "getcol df ''cholesterol'' = Inr cholesterol" and g: "getcol df ''gluc'' = Inr gluc" and
    d: "d = setcol (setcol (setcol df ''overweight''
              (astype_int (fgt_scalar (truediv weight (pow_scalar (div_scalar height 100) 2)) 25)))
              ''cholesterol'' (astype_int (gt_scalar cholesterol 1)))
              ''gluc'' (astype_int (gt_scalar gluc 1))"
    unfolding cat_derive_Inr by blast
  let ?c = "astype_int (gt_scalar cholesterol 1)" and ?g = "astype_int (gt_scalar gluc 1)"
  have lens: "length cholesterol = nrows df" "length gluc = nrows df"
    using assms(1) c g by (simp_all add: getcol_length)
  have c': "getcol d ''cholesterol'' = Inr ?c" and g': "getcol d ''gluc'' = Inr ?g"
    unfolding d by (simp_all add: getcol_setcol_other getcol_setcol_same)
  have len: "length ?c = nrows df" "length ?g = nrows df"
    using lens by (simp_all add: binarise_length)
  have cells: "?c ! i = (if 1 < cholesterol ! i then 1 else 0) \<and>
      ?g ! i = (if 1 < gluc ! i then 1 else 0)" if "i < nrows df" for i
    using that lens by (simp add: binarise_nth)
  have "heat_derive df = Inr d"
    using assms(2) by (simp add: derive_same)
  with c g c' g' len cells show ?thesis by blast
qed

theorem binarised_columns_witness:
  "wf_frame exam \<and> cat_derive exam = Inr exam_derived \<and> heat_derive exam = Inr exam_derived \<and>
   getcol exam ''cholesterol'' = Inr [1, 1, 3, 2, 1, 1] \<and>
   getcol exam_derived ''cholesterol'' = Inr [0, 0, 1, 1, 0, 0] \<and>
   getcol exam ''gluc'' = Inr [1, 2, 1, 1, 3, 1] \<and>
   getcol exam_derived ''gluc'' = Inr [0, 1, 0, 0, 1, 0] \<and>
   nrows exam = 6"
proof -
  have "heat_derive exam = Inr exam_derived \<and>
    (\<exists>cholesterol gluc cholesterol' gluc'.
       getcol exam ''cholesterol'' = Inr cholesterol \<and> getcol exam ''gluc'' = Inr gluc \<and>
       getcol exam_derived ''cholesterol'' = Inr cholesterol' \<and>
       getcol exam_derived ''gluc'' = Inr gluc' \<and>
       length cholesterol' = nrows exam \<and> length gluc' = nrows exam \<and>
       (\<forall>i<nrows exam.
          cholesterol' ! i = (if 1 < cholesterol ! i then 1 else 0) \<and>
          gluc' ! i = (if 1 < gluc ! i then 1 else 0)))"
    using exam_wf exam_derive by (rule binarised_columns)
  then show ?thesis
    using exam_wf exam_derive
    by (simp add: exam_def exam_derived_def getcol_def nrows_def)
qed

text \<open>
  C4. The mask of the heat map is meant to be true exactly on and above the diagonal,
  whatever the correlations are. The code passes \<^verbatim>\<open>np.triu(corr)\<close>, the upper triangle
  of the correlations themselves. On the small dataset the correlation of \<^verbatim>\<open>age\<close>
  (column 1) and \<^verbatim>\<open>ap_hi\<close> (column 5) over the retained rows is zero, so the mask holds
  zero in the cell \<open>(1, 5)\<close> above the diagonal, which reads as false.
\<close>

theorem mask_holds_correlations:
  "heat_mask_of exam_disk = Inr (triu (cells (corr exam_kept))) \<and>
   cells (corr exam_kept) ! 1 ! 5 = Fin 0 \<and>
   triu (cells (corr exam_kept)) ! 1 ! 5 = Fin 0 \<and>
   \<not> truthy (triu (cells (corr exam_kept)) ! 1 ! 5)"
proof -
  have c: "cells (corr exam_kept) ! 1 ! 5 = Fin 0"
    by (simp add: corr_cell exam_kept_columns exam_age_ap_hi)
  have "triu (cells (corr exam_kept)) ! 1 ! 5 = Fin 0"
    using mask_cell [of 1 exam_kept 5] by (simp add: exam_kept_columns exam_age_ap_hi)
  with c exam_heat_mask show ?thesis by simp
qed






text \<open>
  C7. The derivation of the heat map is the derivation of the categorical plot: on every
  table both return the same derived table or raise the same error, and so do the two
  pipelines up to that point.
\<close>

theorem derivation_shared:
  "heat_derive df = cat_derive df \<and> heat_table disk = cat_table disk"
proof -
  have "heat_derive = cat_derive"
    by (rule ext) (rule derive_same)
  then show ?thesis
    by (simp add: heat_table_def cat_table_def)
qed





text \<open>
  C10. A row of the count table stands for a group that occurs: its total is the number of
  rows of the table with that \<^verbatim>\<open>cardio\<close> and that value of the variable, and it is
  at least 1; a combination that no row has is therefore not in the table.
\<close>

theorem counts_at_least_one:
  assumes "read_csv disk dataset_path = Inr raw" and "wf_frame raw"
    and "cat_table disk = Inr df" and "cat_counts disk = Inr df_cat"
    and "((c, v, x), n) \<in> set df_cat"
  shows "1 \<le> n \<and> v \<in> set value_vars \<and>
    (\<exists>cardio col. getcol df ''cardio'' = Inr cardio \<and> getcol df v = Inr col \<and>
       n = length (filter (\<lambda>i. cardio ! i = c \<and> col ! i = x) [0..<nrows raw]))"
proof -
  from assms(3,4) obtain ids rows where
    ids: "getcol df ''cardio'' = Inr ids" and
    rows: "melt_vars df ids value_vars = Inr rows" and cat: "df_cat = groupby_count rows"
    by (auto simp: cat_counts_Inr melt_Inr)
  from assms(1,3) have df: "cat_derive raw = Inr df"
    by (simp add: cat_table_def)
  have wf: "wf_frame df" and nr: "nrows df = nrows raw"
    using assms(2) df cat_derive_wf by blast+
  from assms(5) have mem: "(c, v, x) \<in> set rows" and n: "n = count_list rows (c, v, x)"
    by (auto simp: cat set_groupby_count)
  from rows mem obtain col where v: "v \<in> set value_vars" and col: "getcol df v = Inr col"
    using melt_vars_member by blast
  have lens: "length ids = nrows raw" "length col = nrows raw"
    using wf ids col nr getcol_length by metis+
  have "count_list value_vars v = 1"
    using v by (auto simp: value_vars_def)
  with rows col have "n = count_list (zip ids col) (c, x)"
    by (simp add: n melt_vars_count)
  then have "n = length (filter (\<lambda>i. ids ! i = c \<and> col ! i = x) [0..<nrows raw])"
    using lens by (simp add: count_list_zip_conv)
  moreover have "1 \<le> n"
    using mem n count_list_0_iff [of rows "(c, v, x)"] by (cases n) auto
  ultimately show ?thesis
    using v ids col by blast
qed

theorem counts_at_least_one_witness:
  "read_csv exam_disk dataset_path = Inr exam \<and> wf_frame exam \<and>
   cat_table exam_disk = Inr exam_derived \<and>
   cat_counts exam_disk = Inr exam_counts \<and>
   ((1, ''alco'', 0), 4) \<in> set exam_counts \<and> (1::nat) \<le> 4 \<and> ''alco'' \<in> set value_vars \<and>
   getcol exam_derived ''cardio'' = Inr [0, 0, 1, 1, 1, 1] \<and>
   getcol exam_derived ''alco'' = Inr [1, 0, 0, 0, 0, 0] \<and>
   length (filter (\<lambda>i. [0, 0, 1, 1, 1, 1 :: real] ! i = 1 \<and> [1, 0, 0, 0, 0, 0 :: real] ! i = 0)
     [0..<nrows exam]) = 4"
proof -
  have m: "((1, ''alco'', 0), 4) \<in> set exam_counts"
    by (simp add: exam_counts_def)
  have c: "getcol exam_derived ''cardio'' = Inr [0, 0, 1, 1, 1, 1]"
    "getcol exam_derived ''alco'' = Inr [1, 0, 0, 0, 0, 0]"
    by (simp_all add: exam_derived_def getcol_def)
  have "1 \<le> (4::nat) \<and> ''alco'' \<in> set value_vars \<and>
    (\<exists>cardio col. getcol exam_derived ''cardio'' = Inr cardio \<and>
       getcol exam_derived ''alco'' = Inr col \<and>
       4 = length (filter (\<lambda>i. cardio ! i = 1 \<and> col ! i = 0) [0..<nrows exam]))"
    using exam_read exam_wf exam_cat_table exam_cat_counts m by (rule counts_at_least_one)
  then show ?thesis
    using exam_read exam_wf exam_cat_table exam_cat_counts m c by auto
qed

end
